theory Spec2Isabelle
  imports Complex_Main
begin

section \<open>Data model\<close>

text \<open>
  The pipeline passes pandas tables of float64 cells between its stages. A cell is
  either missing (NaN) or holds a number; a table is a row index (the dates) and an
  ordered list of named columns, each holding one cell per index entry; a series is one
  such column together with the index. The performance summary is a Python dict from
  metric name to float.
\<close>

type_synonym cell = "real option"

record dataframe =
  df_index :: "string list"
  df_columns :: "(string \<times> cell list) list"

record series =
  s_index :: "string list"
  s_values :: "cell list"

type_synonym performance = "string \<rightharpoonup> cell"

text \<open>
  The file system that \<open>read_data\<close> is called in: a path leads to the lines of a text
  file, or to nothing.
\<close>

type_synonym filesystem = "string \<rightharpoonup> string list"

text \<open>
  The exceptions the code can raise: every stage body is
  \<^verbatim>\<open>raise NotImplementedError("Implement <name>")\<close>, and the column lookup
  \<^verbatim>\<open>strategy_returns["TSMOM"]\<close> of \<open>run_pipeline\<close> raises KeyError on an absent label.
\<close>

datatype error = NotImplementedError string | KeyError string

section \<open>The pipeline stages (src/src)\<close>

text \<open>\<^verbatim>\<open>src/src/io.py\<close>: the body is the single raise statement.\<close>

definition read_data :: "filesystem \<Rightarrow> string \<Rightarrow> error + dataframe" where
  "read_data fs filepath = Inl (NotImplementedError ''Implement read_data'')"

text \<open>\<^verbatim>\<open>src/src/returns.py\<close>\<close>

definition calculate_returns :: "dataframe \<Rightarrow> error + dataframe" where
  "calculate_returns prices = Inl (NotImplementedError ''Implement calculate_returns'')"

text \<open>\<^verbatim>\<open>src/src/momentum.py\<close>\<close>

definition calculate_momentum :: "dataframe \<Rightarrow> int \<Rightarrow> error + dataframe" where
  "calculate_momentum daily_returns lookback_days =
     Inl (NotImplementedError ''Implement calculate_momentum'')"

text \<open>\<^verbatim>\<open>src/src/signals.py\<close>\<close>

definition generate_signals :: "dataframe \<Rightarrow> error + dataframe" where
  "generate_signals momentum = Inl (NotImplementedError ''Implement generate_signals'')"

text \<open>\<^verbatim>\<open>src/src/strategy.py\<close>: the defaults \<open>vol_lookback=252\<close> and \<open>target_vol=0.10\<close>
  of the two signatures are passed explicitly by every caller in the repository.\<close>

definition calculate_volatility :: "dataframe \<Rightarrow> int \<Rightarrow> error + dataframe" where
  "calculate_volatility daily_returns vol_lookback =
     Inl (NotImplementedError ''Implement calculate_volatility'')"

definition calculate_strategy_returns ::
  "dataframe \<Rightarrow> dataframe \<Rightarrow> dataframe \<Rightarrow> real \<Rightarrow> error + dataframe" where
  "calculate_strategy_returns signals daily_returns volatility target_vol =
     Inl (NotImplementedError ''Implement calculate_strategy_returns'')"

text \<open>\<^verbatim>\<open>src/src/performance.py\<close>\<close>

definition calculate_performance :: "series \<Rightarrow> error + performance" where
  "calculate_performance daily_returns =
     Inl (NotImplementedError ''Implement calculate_performance'')"

section \<open>The driver (src/hw1.py)\<close>

text \<open>Column selection \<^verbatim>\<open>df[label]\<close>: the column under that label, KeyError without one.\<close>

definition getitem :: "dataframe \<Rightarrow> string \<Rightarrow> error + series" where
  "getitem df label =
     (case map_of (df_columns df) label of
        None \<Rightarrow> Inl (KeyError label)
      | Some vs \<Rightarrow> Inr \<lparr>s_index = df_index df, s_values = vs\<rparr>)"

text \<open>
  \<open>run_pipeline\<close> calls the seven stages in order; an exception raised by a stage leaves
  the function at once, so each later stage runs only on the value the earlier one
  returned. The look-back is passed to both the momentum and the volatility stage, the
  target volatility is the literal \<open>0.10\<close>, and the signature's defaults
  (\<open>lookback_days=252\<close>, \<open>data_path="data/price_data.csv"\<close>) are left to the caller.
\<close>

definition run_pipeline :: "filesystem \<Rightarrow> int \<Rightarrow> string \<Rightarrow> error + performance" where
  "run_pipeline fs lookback_days data_path =
     (case read_data fs data_path of Inl e \<Rightarrow> Inl e | Inr daily_prices \<Rightarrow>
      (case calculate_returns daily_prices of Inl e \<Rightarrow> Inl e | Inr daily_returns \<Rightarrow>
       (case calculate_momentum daily_returns lookback_days of Inl e \<Rightarrow> Inl e | Inr momentum \<Rightarrow>
        (case generate_signals momentum of Inl e \<Rightarrow> Inl e | Inr signals \<Rightarrow>
         (case calculate_volatility daily_returns lookback_days of Inl e \<Rightarrow> Inl e | Inr volatility \<Rightarrow>
          (case calculate_strategy_returns signals daily_returns volatility (1 / 10) of
             Inl e \<Rightarrow> Inl e
           | Inr strategy_returns \<Rightarrow>
            (case getitem strategy_returns ''TSMOM'' of Inl e \<Rightarrow> Inl e | Inr tsmom_returns \<Rightarrow>
               calculate_performance tsmom_returns)))))))"

section \<open>Concrete inputs\<close>

text \<open>
  A two-asset price table of four trading days, and the return table that the docstring's
  formula \<open>r_t = P_t / P_{t-1} - 1\<close> (first row NaN) gives for it.
\<close>

definition ex_prices :: dataframe where
  "ex_prices =
     \<lparr>df_index = [''2020-01-02'', ''2020-01-03'', ''2020-01-06'', ''2020-01-07''],
      df_columns = [(''SP500'', [Some 100, Some 110, Some 99, Some 99]),
                    (''NASDAQ'', [Some 50, Some 50, Some 100, Some 50])]\<rparr>"

definition ex_prices_returns :: dataframe where
  "ex_prices_returns =
     \<lparr>df_index = [''2020-01-02'', ''2020-01-03'', ''2020-01-06'', ''2020-01-07''],
      df_columns = [(''SP500'', [None, Some (1 / 10), Some (- 1 / 10), Some 0]),
                    (''NASDAQ'', [None, Some 0, Some 1, Some (- 1 / 2)])]\<rparr>"

text \<open>
  A one-asset return table without a missing cell, the momentum table that the docstring's
  product \<open>(1 + r_{t-L}) * ... * (1 + r_{t-1}) - 1\<close> gives for it with look-back \<open>L = 2\<close>
  (the first two rows lack history), and the volatility table that
  \<open>std(r_{t-W+1}, ..., r_t) * sqrt(252)\<close> gives with window \<open>W = 2\<close>: the sample standard
  deviation of two numbers \<open>a\<close>, \<open>b\<close> is \<open>|a - b| / sqrt 2\<close>, so a cell is
  \<open>|a - b| * sqrt 126\<close>.
\<close>

definition ex_returns :: dataframe where
  "ex_returns =
     \<lparr>df_index = [''2020-01-02'', ''2020-01-03'', ''2020-01-06'', ''2020-01-07''],
      df_columns = [(''SP500'', [Some (1 / 10), Some (1 / 5), Some (- 1 / 2), Some 0])]\<rparr>"

definition ex_returns_momentum :: dataframe where
  "ex_returns_momentum =
     \<lparr>df_index = [''2020-01-02'', ''2020-01-03'', ''2020-01-06'', ''2020-01-07''],
      df_columns = [(''SP500'', [None, None, Some (8 / 25), Some (- 2 / 5)])]\<rparr>"

definition ex_returns_volatility :: dataframe where
  "ex_returns_volatility =
     \<lparr>df_index = [''2020-01-02'', ''2020-01-03'', ''2020-01-06'', ''2020-01-07''],
      df_columns = [(''SP500'', [None, Some (sqrt 126 / 10), Some (7 * sqrt 126 / 10),
                                Some (sqrt 126 / 2)])]\<rparr>"

text \<open>
  A momentum table with a missing, a positive, a negative and a zero cell, and the signal
  table of the docstring's sign rule (NaN and 0 both go to 0.0).
\<close>

definition ex_momentum :: dataframe where
  "ex_momentum =
     \<lparr>df_index = [''2020-01-02'', ''2020-01-03'', ''2020-01-06'', ''2020-01-07''],
      df_columns = [(''SP500'', [None, Some (8 / 25), Some (- 2 / 5), Some 0])]\<rparr>"

definition ex_momentum_signals :: dataframe where
  "ex_momentum_signals =
     \<lparr>df_index = [''2020-01-02'', ''2020-01-03'', ''2020-01-06'', ''2020-01-07''],
      df_columns = [(''SP500'', [Some 0, Some 1, Some (- 1), Some 0])]\<rparr>"

text \<open>
  One asset's signals, returns and volatilities over four days. With target volatility
  \<open>1/10\<close> the docstring's formula \<open>signal_t * (target_vol / vol_{t-1}) * r_t\<close> gives a
  missing cell on day 0 (no return) and day 1 (no volatility of day 0),
  \<open>-1 * ((1/10) / (1/5)) * (3/100) = -3/200\<close> on day 2 and
  \<open>1 * ((1/10) / (1/10)) * (-1/100) = -1/100\<close> on day 3; with a single asset the
  \<open>TSMOM\<close> average is that same column.
\<close>

definition ex_signals :: dataframe where
  "ex_signals =
     \<lparr>df_index = [''2020-01-02'', ''2020-01-03'', ''2020-01-06'', ''2020-01-07''],
      df_columns = [(''SP500'', [Some 0, Some 1, Some (- 1), Some 1])]\<rparr>"

definition ex_daily_returns :: dataframe where
  "ex_daily_returns =
     \<lparr>df_index = [''2020-01-02'', ''2020-01-03'', ''2020-01-06'', ''2020-01-07''],
      df_columns = [(''SP500'', [None, Some (1 / 50), Some (3 / 100), Some (- 1 / 100)])]\<rparr>"

definition ex_volatility :: dataframe where
  "ex_volatility =
     \<lparr>df_index = [''2020-01-02'', ''2020-01-03'', ''2020-01-06'', ''2020-01-07''],
      df_columns = [(''SP500'', [None, Some (1 / 5), Some (1 / 10), Some (1 / 2)])]\<rparr>"

definition ex_strategy_returns :: dataframe where
  "ex_strategy_returns =
     \<lparr>df_index = [''2020-01-02'', ''2020-01-03'', ''2020-01-06'', ''2020-01-07''],
      df_columns = [(''SP500'', [None, None, Some (- 3 / 200), Some (- 1 / 100)]),
                    (''TSMOM'', [None, None, Some (- 3 / 200), Some (- 1 / 100)])]\<rparr>"

text \<open>
  Two assets over three days, both long throughout. With target volatility \<open>1/10\<close> the
  position scale is \<open>1\<close> for SP500 (volatility \<open>1/10\<close>) and \<open>1/2\<close> for NASDAQ
  (volatility \<open>1/5\<close>), so the per-asset strategy returns are \<open>NaN, 1/50, 1/25\<close> and
  \<open>NaN, 1/100, -3/100\<close>, and their equal-weighted average is \<open>NaN, 3/200, 1/200\<close>.
\<close>

definition ex2_signals :: dataframe where
  "ex2_signals =
     \<lparr>df_index = [''2020-01-02'', ''2020-01-03'', ''2020-01-06''],
      df_columns = [(''SP500'', [Some 1, Some 1, Some 1]),
                    (''NASDAQ'', [Some 1, Some 1, Some 1])]\<rparr>"

definition ex2_daily_returns :: dataframe where
  "ex2_daily_returns =
     \<lparr>df_index = [''2020-01-02'', ''2020-01-03'', ''2020-01-06''],
      df_columns = [(''SP500'', [None, Some (1 / 50), Some (1 / 25)]),
                    (''NASDAQ'', [None, Some (1 / 50), Some (- 3 / 50)])]\<rparr>"

definition ex2_volatility :: dataframe where
  "ex2_volatility =
     \<lparr>df_index = [''2020-01-02'', ''2020-01-03'', ''2020-01-06''],
      df_columns = [(''SP500'', [Some (1 / 10), Some (1 / 10), Some (1 / 10)]),
                    (''NASDAQ'', [Some (1 / 5), Some (1 / 5), Some (1 / 5)])]\<rparr>"

definition ex2_tsmom :: "cell list" where
  "ex2_tsmom = [None, Some (3 / 200), Some (1 / 200)]"

text \<open>
  A return series with a leading NaN. Without it the values are \<open>1/100\<close> and \<open>3/100\<close>:
  mean \<open>1/50\<close>, sample standard deviation \<open>(1/50) / sqrt 2\<close>, hence annualized return
  \<open>252 / 50 = 126/25\<close>, annualized volatility \<open>sqrt 126 / 50\<close> and Sharpe ratio
  \<open>252 / sqrt 126 = 2 * sqrt 126\<close>.
\<close>

definition ex_tsmom_returns :: series where
  "ex_tsmom_returns =
     \<lparr>s_index = [''2020-01-02'', ''2020-01-03'', ''2020-01-06''],
      s_values = [None, Some (1 / 100), Some (3 / 100)]\<rparr>"

definition ex_tsmom_performance :: performance where
  "ex_tsmom_performance =
     map_of [(''annualized_return'', Some (126 / 25)),
             (''annualized_volatility'', Some (sqrt 126 / 50)),
             (''sharpe_ratio'', Some (2 * sqrt 126))]"

text \<open>A return series of three different values and no missing one.\<close>

definition ex_full_series :: series where
  "ex_full_series =
     \<lparr>s_index = [''2020-01-02'', ''2020-01-03'', ''2020-01-06''],
      s_values = [Some (1 / 100), Some (3 / 100), Some (- 1 / 50)]\<rparr>"

text \<open>
  A file system holding the CSV file of the default path, with the header that the
  docstring of \<open>read_data\<close> names and two rows of prices.
\<close>

definition ex_fs :: filesystem where
  "ex_fs =
     [''data/price_data.csv'' \<mapsto>
        [''Date,SP500,NASDAQ,DJIA'',
         ''2020-01-02,3257.85,9092.19,28868.80'',
         ''2020-01-03,3234.85,9020.77,28634.88'']]"

section \<open>Results\<close>

text \<open>
  C10. As shipped, each of the seven stage functions raises NotImplementedError on every
  input, and \<open>run_pipeline\<close> therefore ends in the exception of its first stage and
  returns a performance dictionary on no input.
\<close>

theorem stages_raise_not_implemented:
  "read_data fs filepath = Inl (NotImplementedError ''Implement read_data'') \<and>
   calculate_returns prices = Inl (NotImplementedError ''Implement calculate_returns'') \<and>
   calculate_momentum daily_returns lookback_days =
     Inl (NotImplementedError ''Implement calculate_momentum'') \<and>
   generate_signals momentum = Inl (NotImplementedError ''Implement generate_signals'') \<and>
   calculate_volatility daily_returns vol_lookback =
     Inl (NotImplementedError ''Implement calculate_volatility'') \<and>
   calculate_strategy_returns signals daily_returns volatility target_vol =
     Inl (NotImplementedError ''Implement calculate_strategy_returns'') \<and>
   calculate_performance tsmom_returns =
     Inl (NotImplementedError ''Implement calculate_performance'') \<and>
   run_pipeline fs lookback_days data_path = Inl (NotImplementedError ''Implement read_data'') \<and>
   (\<nexists>perf. run_pipeline fs lookback_days data_path = Inr perf)"
  by (simp add: read_data_def calculate_returns_def calculate_momentum_def
      generate_signals_def calculate_volatility_def calculate_strategy_returns_def
      calculate_performance_def run_pipeline_def)

text \<open>
  C5. On the price table \<open>ex_prices\<close> the function \<open>calculate_returns\<close> raises
  NotImplementedError; it does not return the table of day-over-day returns with a
  missing first row that its docstring describes.
\<close>

theorem calculate_returns_ex_prices:
  "calculate_returns ex_prices = Inl (NotImplementedError ''Implement calculate_returns'') \<and>
   calculate_returns ex_prices \<noteq> Inr ex_prices_returns"
  by (simp add: calculate_returns_def)

text \<open>
  C1. On the signal, return and volatility tables \<open>ex_signals\<close>, \<open>ex_daily_returns\<close>,
  \<open>ex_volatility\<close> with target volatility \<open>1/10\<close>, \<open>calculate_strategy_returns\<close> raises
  NotImplementedError; it does not return the table whose cells are
  \<open>signal_t * (target_vol / vol_{t-1}) * r_t\<close>, missing where a factor is missing.
\<close>

theorem calculate_strategy_returns_ex:
  "calculate_strategy_returns ex_signals ex_daily_returns ex_volatility (1 / 10) =
     Inl (NotImplementedError ''Implement calculate_strategy_returns'') \<and>
   calculate_strategy_returns ex_signals ex_daily_returns ex_volatility (1 / 10) \<noteq>
     Inr ex_strategy_returns"
  by (simp add: calculate_strategy_returns_def)

text \<open>
  C2. On the return table \<open>ex_returns\<close> with look-back \<open>2\<close>, \<open>calculate_momentum\<close> raises
  NotImplementedError; it does not return the table of compounded returns over the two
  preceding days, missing in the first two rows.
\<close>

theorem calculate_momentum_ex_returns:
  "calculate_momentum ex_returns 2 = Inl (NotImplementedError ''Implement calculate_momentum'') \<and>
   calculate_momentum ex_returns 2 \<noteq> Inr ex_returns_momentum"
  by (simp add: calculate_momentum_def)

text \<open>
  C3. On the momentum table \<open>ex_momentum\<close>, \<open>generate_signals\<close> raises
  NotImplementedError; it does not return the table of signs \<open>0, 1, -1, 0\<close>.
\<close>

theorem generate_signals_ex_momentum:
  "generate_signals ex_momentum = Inl (NotImplementedError ''Implement generate_signals'') \<and>
   generate_signals ex_momentum \<noteq> Inr ex_momentum_signals"
  by (simp add: generate_signals_def)

text \<open>
  C4. On the series \<open>ex_full_series\<close>, which is not empty and not constant,
  \<open>calculate_performance\<close> fails with NotImplementedError: it returns no dictionary at
  all, so failure is not confined to empty and zero-volatility series.
\<close>

theorem calculate_performance_fails_on_full_series:
  "calculate_performance ex_full_series =
     Inl (NotImplementedError ''Implement calculate_performance'') \<and>
   (\<nexists>perf. calculate_performance ex_full_series = Inr perf)"
  by (simp add: calculate_performance_def)

text \<open>
  C6. On the return table \<open>ex_returns\<close> with window \<open>2\<close>, \<open>calculate_volatility\<close> raises
  NotImplementedError; it does not return the table of annualized trailing sample
  standard deviations, missing in the first row.
\<close>

theorem calculate_volatility_ex_returns:
  "calculate_volatility ex_returns 2 =
     Inl (NotImplementedError ''Implement calculate_volatility'') \<and>
   calculate_volatility ex_returns 2 \<noteq> Inr ex_returns_volatility"
  by (simp add: calculate_volatility_def)

text \<open>
  C7. On the two-asset tables \<open>ex2_signals\<close>, \<open>ex2_daily_returns\<close>, \<open>ex2_volatility\<close> with
  target volatility \<open>1/10\<close>, \<open>calculate_strategy_returns\<close> raises NotImplementedError;
  it returns no table, hence none with a \<open>TSMOM\<close> column holding the row-wise average
  of the two asset columns.
\<close>

theorem calculate_strategy_returns_no_tsmom:
  "calculate_strategy_returns ex2_signals ex2_daily_returns ex2_volatility (1 / 10) =
     Inl (NotImplementedError ''Implement calculate_strategy_returns'') \<and>
   (\<nexists>out. calculate_strategy_returns ex2_signals ex2_daily_returns ex2_volatility (1 / 10) =
       Inr out \<and> map_of (df_columns out) ''TSMOM'' = Some ex2_tsmom)"
  by (simp add: calculate_strategy_returns_def)

text \<open>
  C8. On the series \<open>ex_tsmom_returns\<close>, which after dropping its NaN has two different
  values, \<open>calculate_performance\<close> raises NotImplementedError; it does not return the
  dictionary of annualized return, annualized volatility and Sharpe ratio of the
  retained values.
\<close>

theorem calculate_performance_ex_tsmom_returns:
  "calculate_performance ex_tsmom_returns =
     Inl (NotImplementedError ''Implement calculate_performance'') \<and>
   calculate_performance ex_tsmom_returns \<noteq> Inr ex_tsmom_performance"
  by (simp add: calculate_performance_def)

text \<open>
  C9. In the file system \<open>ex_fs\<close>, on the path of its CSV file, \<open>read_data\<close> raises
  NotImplementedError; it returns no price table, hence none whose columns are the
  file's non-date columns SP500, NASDAQ, DJIA.
\<close>

theorem read_data_ex_fs:
  "read_data ex_fs ''data/price_data.csv'' = Inl (NotImplementedError ''Implement read_data'') \<and>
   (\<nexists>prices. read_data ex_fs ''data/price_data.csv'' = Inr prices \<and>
       map fst (df_columns prices) = [''SP500'', ''NASDAQ'', ''DJIA''])"
  by (simp add: read_data_def)

end
